theory Spec2Isabelle
  imports Complex_Main
begin

section \<open>Radium: pairs of equities and the backtest of a pair strategy\<close>

text \<open>
  A shallow embedding of \<^verbatim>\<open>radium/pair/pair.py\<close> (class \<^verbatim>\<open>Pair\<close>) and
  \<^verbatim>\<open>radium/strategy/strategy.py\<close> (class \<^verbatim>\<open>Strategy\<close>; the function of
  \<^verbatim>\<open>radium/strategy/_returns.py\<close> is the same code as \<^verbatim>\<open>Strategy.returns\<close>).

  Conventions of the embedding:
  \<^item> Python floats are real numbers. A float that is NaN is \<open>None\<close> in a
    \<open>real option\<close>, where the code can produce one.
  \<^item> A pandas series of closing prices is the list of its values in date order. The two
    series of a pair carry the same dates (the calendar is shared), so the data frame
    \<^verbatim>\<open>pd.concat([equity1.closed, equity2.closed], axis=1)\<close> is the list of rows
    \<open>(close1, close2)\<close>.
  \<^item> An \<open>n\<close> by 2 numpy array is a list of \<open>n\<close> rows, each a pair of reals.
  \<^item> A raised exception is \<open>Inl\<close> of an \<open>error\<close>; the \<^verbatim>\<open>isinstance\<close> checks that
    raise \<^verbatim>\<open>TypeError\<close> are discharged by the types of the embedding.
  \<^item> An attribute that \<^verbatim>\<open>hasattr\<close> tests is an \<open>option\<close> field: \<open>None\<close> while the
    attribute is absent.
\<close>

subsection \<open>Errors and helpers\<close>

datatype error =
  TypeError
  | ValueError
  | IndexError
  | Exception
  | NonFinite \<comment> \<open>not an exception: the float result is inf or NaN, so no real number\<close>

text \<open>\<^verbatim>\<open>series.iloc[i]\<close> for \<open>i \<ge> 0\<close>, and \<^verbatim>\<open>series.iloc[-1]\<close>.\<close>

definition iloc :: "'a list \<Rightarrow> nat \<Rightarrow> error + 'a" where
  "iloc xs i = (if i < length xs then Inr (xs ! i) else Inl IndexError)"

definition iloc_last :: "'a list \<Rightarrow> error + 'a" where
  "iloc_last xs = (if xs = [] then Inl IndexError else Inr (last xs))"

subsection \<open>Equities and pairs\<close>

text \<open>
  \<^verbatim>\<open>radium.Equity\<close> is used through four attributes only. Dates are day numbers.
\<close>

type_synonym date = int

record Equity =
  symbol :: string
  equity_start_date :: date
  equity_end_date :: date
  closed_prices :: "real list" \<comment> \<open>\<^verbatim>\<open>Equity.closed\<close>\<close>

type_synonym frame = "(real \<times> real) list"

record Pair =
  equity1 :: Equity
  equity2 :: Equity
  start_date :: date
  end_date :: date
  hedge_ratios :: "frame option"
  price_spread_cache :: "real list option" \<comment> \<open>\<^verbatim>\<open>self._price_spread\<close>\<close>

text \<open>\<^verbatim>\<open>Pair.__init__\<close>.\<close>

definition Pair_init :: "Equity \<Rightarrow> Equity \<Rightarrow> error + Pair" where
  "Pair_init e1 e2 =
     (let sd = (if equity_start_date e1 \<ge> equity_start_date e2
                then equity_start_date e1 else equity_start_date e2);
          ed = (if equity_end_date e1 \<le> equity_end_date e2
                then equity_end_date e1 else equity_end_date e2)
      in if ed \<le> sd then Inl ValueError
         else Inr \<lparr>equity1 = e1, equity2 = e2, start_date = sd, end_date = ed,
                   hedge_ratios = None, price_spread_cache = None\<rparr>)"

text \<open>The data frame of the closing prices of both equities.\<close>

definition closed_frame :: "Pair \<Rightarrow> frame" where
  "closed_frame self = zip (closed_prices (equity1 self)) (closed_prices (equity2 self))"

subsection \<open>Hedge ratios\<close>

text \<open>
  The regression \<^verbatim>\<open>sm.ols(formula, df_lookback).fit()\<close> belongs to an external library. The
  embedding takes it as a parameter \<open>fit\<close>: given the rows of the window, \<open>fit\<close> is
  \<^verbatim>\<open>ols.params[1]\<close>, the gradient of the first column regressed on the second.
\<close>

type_synonym regression = "frame \<Rightarrow> real"

text \<open>
  The closed form of that gradient, for concrete evaluations: the least-squares slope of
  the first column on the second, and the minimum-norm solution where the second column is
  constant.
\<close>

definition ols_gradient :: regression where
  "ols_gradient w =
     (let n = real (length w);
          mx = sum_list (map snd w) / n;
          my = sum_list (map fst w) / n;
          sxx = sum_list (map (\<lambda>(y, x). (x - mx) * (x - mx)) w);
          sxy = sum_list (map (\<lambda>(y, x). (x - mx) * (y - my)) w)
      in if sxx = 0 then mx * my / (1 + mx * mx) else sxy / sxx)"

text \<open>The slice \<^verbatim>\<open>df[a:b]\<close> for \<open>0 \<le> a \<le> b\<close>.\<close>

definition slice :: "'a list \<Rightarrow> nat \<Rightarrow> nat \<Rightarrow> 'a list" where
  "slice xs a b = take (b - a) (drop a xs)"

text \<open>
  The row that \<^verbatim>\<open>hedge_ratios[i - 1]\<close> addresses in an array of \<open>n\<close> rows: for \<open>i = 0\<close> the
  index is \<open>-1\<close>, which numpy reads as the last row.
\<close>

definition row_before :: "nat \<Rightarrow> nat \<Rightarrow> nat" where
  "row_before n i = (if i = 0 then n - 1 else i - 1)"

text \<open>
  \<^verbatim>\<open>Pair._hedge_ols\<close>: the array starts as zeros and the loop over
  \<^verbatim>\<open>range(lookback, n)\<close> writes one row in each round.
\<close>

definition hedge_ols_step :: "regression \<Rightarrow> frame \<Rightarrow> nat \<Rightarrow> nat \<Rightarrow> frame \<Rightarrow> frame" where
  "hedge_ols_step fit df lookback i hr =
     hr[row_before (length hr) i := (1, - 1 * fit (slice df (i - lookback) i))]"

definition hedge_ols :: "regression \<Rightarrow> Pair \<Rightarrow> nat \<Rightarrow> frame" where
  "hedge_ols fit self lookback =
     (let df = closed_frame self
      in fold (hedge_ols_step fit df lookback) [lookback..<length df]
           (replicate (length df) (0, 0)))"

text \<open>\<^verbatim>\<open>Pair.hedge\<close>: the checks, then the assignment to \<^verbatim>\<open>self.hedge_ratios\<close>.\<close>

definition hedge :: "regression \<Rightarrow> string \<Rightarrow> int \<Rightarrow> Pair \<Rightarrow> error + Pair" where
  "hedge fit method lookback self =
     (if lookback \<le> 0 then Inl ValueError
      else if method = ''OLS''
        then Inr (self\<lparr>hedge_ratios := Some (hedge_ols fit self (nat lookback))\<rparr>)
      else Inl ValueError)"

text \<open>
  The property \<^verbatim>\<open>Pair.price_spread\<close>: the result and the object after the read.
  \<^verbatim>\<open>np.sum(self.hedge_ratios * prices, axis=1)\<close> multiplies elementwise and sums each row.
\<close>

definition spread_of :: "frame \<Rightarrow> frame \<Rightarrow> real list" where
  "spread_of hr prices = map (\<lambda>((h1, h2), (y1, y2)). h1 * y1 + h2 * y2) (zip hr prices)"

definition price_spread :: "Pair \<Rightarrow> (error + real list) \<times> Pair" where
  "price_spread self =
     (case hedge_ratios self of
        None \<Rightarrow> (Inl Exception, self)
      | Some hr \<Rightarrow>
          (case price_spread_cache self of
             None \<Rightarrow>
               (let sp = spread_of hr (closed_frame self)
                in (Inr sp, self\<lparr>price_spread_cache := Some sp\<rparr>))
           | Some sp \<Rightarrow> (Inr sp, self)))"

text \<open>
  The objects a program can hold: a constructed pair, and whatever calls of \<^verbatim>\<open>hedge\<close> and
  reads of \<^verbatim>\<open>price_spread\<close> make of it.
\<close>

inductive reachable :: "regression \<Rightarrow> Pair \<Rightarrow> bool" for fit :: regression where
  constructed: "Pair_init e1 e2 = Inr p \<Longrightarrow> reachable fit p"
| hedged: "reachable fit p \<Longrightarrow> hedge fit method lookback p = Inr p' \<Longrightarrow> reachable fit p'"
| spread_read: "reachable fit p \<Longrightarrow> price_spread p = (r, p') \<Longrightarrow> reachable fit p'"

subsection \<open>Strategies, truncation and the budget of a pair\<close>

text \<open>
  A strategy object: the pair, and what the concrete strategy supplies, its \<^verbatim>\<open>lookback\<close>
  (the length of a window, a natural number) and the array that \<^verbatim>\<open>self.positions()\<close>
  returns (one row per date).
\<close>

record Strategy =
  pair :: Pair
  lookback :: nat
  positions :: frame

text \<open>
  Modelled from the spec: \<^verbatim>\<open>radium.helpers._truncate\<close> (imported as \<^verbatim>\<open>truncate\<close> by
  \<^verbatim>\<open>strategy.py\<close>) is not among the sources. The specification describes it as
  truncation toward zero to \<open>n\<close> decimal places, sign preserving, with
  \<^verbatim>\<open>truncate(1.2399, 2) == 1.23\<close> and \<^verbatim>\<open>truncate(-1.2399, 2) == -1.23\<close>.
\<close>

definition truncate :: "real \<Rightarrow> nat \<Rightarrow> real" where
  "truncate x n =
     (if 0 \<le> x then of_int \<lfloor>x * 10 ^ n\<rfloor> / 10 ^ n
      else of_int \<lceil>x * 10 ^ n\<rceil> / 10 ^ n)"

text \<open>
  \<^verbatim>\<open>Pair.budget\<close>. The list must have length 2 and \<^verbatim>\<open>dec\<close> must not be negative;
  \<^verbatim>\<open>closed.iloc[-1]\<close> raises on an empty series.
\<close>

definition budget :: "Pair \<Rightarrow> real list \<Rightarrow> int \<Rightarrow> error + real" where
  "budget self hedge_ratio dec =
     (if length hedge_ratio \<noteq> 2 then Inl ValueError
      else if dec < 0 then Inl ValueError
      else case iloc_last (closed_prices (equity1 self)) of
        Inl e \<Rightarrow> Inl e
      | Inr equity1_price \<Rightarrow>
          (case iloc_last (closed_prices (equity2 self)) of
            Inl e \<Rightarrow> Inl e
          | Inr equity2_price \<Rightarrow>
              (let truncated_ratios = map (\<lambda>n. truncate n (nat dec)) hedge_ratio;
                   b = equity1_price * \<bar>truncated_ratios ! 0\<bar> * 10 ^ nat dec
                       + equity2_price * \<bar>truncated_ratios ! 1\<bar> * 10 ^ nat dec
               in Inr (truncate b 2))))"

subsection \<open>Commission\<close>

text \<open>
  The element function of the list comprehensions
  \<^verbatim>\<open>[max(abs(x) * 0.0035, 0.35) if x != 0 else 0 for x in orders]\<close> of \<^verbatim>\<open>returns\<close>.
\<close>

definition commission :: "real \<Rightarrow> real" where
  "commission x = (if x \<noteq> 0 then max (\<bar>x\<bar> * 0.0035) 0.35 else 0)"

subsection \<open>Realised returns\<close>

text \<open>
  The rounding loop of \<^verbatim>\<open>Strategy.returns\<close>: the array starts as zeros and the loop over
  \<^verbatim>\<open>range(self.lookback, n - 1)\<close> writes both columns of row \<open>i\<close>.
\<close>

definition round_step :: "frame \<Rightarrow> nat \<Rightarrow> frame \<Rightarrow> frame" where
  "round_step optimal_positions i rp =
     rp[i := (truncate (fst (optimal_positions ! i)) 3 * 10 ^ 3,
              truncate (snd (optimal_positions ! i)) 3 * 10 ^ 3)]"

definition rounded_positions :: "nat \<Rightarrow> frame \<Rightarrow> frame" where
  "rounded_positions lb optimal_positions =
     fold (round_step optimal_positions) [lb..<length optimal_positions - 1]
       (replicate (length optimal_positions) (0, 0))"

text \<open>\<^verbatim>\<open>np.diff\<close> of a column, and \<^verbatim>\<open>np.append(0, np.diff(column))\<close>.\<close>

fun diff :: "real list \<Rightarrow> real list" where
  "diff (x # y # xs) = (y - x) # diff (y # xs)"
| "diff xs = []"

definition orders :: "real list \<Rightarrow> real list" where
  "orders column = 0 # diff column"

text \<open>
  One round of the budget loop, and the loop over the indices \<^verbatim>\<open>range(0, len(orders) - 1)\<close>.
  \<^verbatim>\<open>closed.iloc[i]\<close> raises where the series is too short.
\<close>

definition budget_step ::
  "Pair \<Rightarrow> real list \<Rightarrow> real list \<Rightarrow> real list \<Rightarrow> real list \<Rightarrow> nat \<Rightarrow> real \<Rightarrow> error + real"
where
  "budget_step p equity1_orders equity1_comm equity2_orders equity2_comm i b =
     (case iloc (closed_prices (equity1 p)) i of
        Inl e \<Rightarrow> Inl e
      | Inr y1 \<Rightarrow>
          (case iloc (closed_prices (equity2 p)) i of
             Inl e \<Rightarrow> Inl e
           | Inr y2 \<Rightarrow>
               Inr (b + (- 1 * equity1_orders ! i * y1 - equity1_comm ! i)
                      + (- 1 * equity2_orders ! i * y2 - equity2_comm ! i))))"

fun budget_loop :: "(nat \<Rightarrow> real \<Rightarrow> error + real) \<Rightarrow> nat list \<Rightarrow> real \<Rightarrow> error + real" where
  "budget_loop step [] b = Inr b"
| "budget_loop step (i # is) b =
     (case step i b of Inl e \<Rightarrow> Inl e | Inr b' \<Rightarrow> budget_loop step is b')"

text \<open>
  The budget after the loop, from the two lists of orders; the commissions are computed
  from the orders.
\<close>

definition final_budget :: "Pair \<Rightarrow> real list \<Rightarrow> real list \<Rightarrow> real \<Rightarrow> error + real" where
  "final_budget p equity1_orders equity2_orders b =
     (let equity1_comm = map commission equity1_orders;
          equity2_comm = map commission equity2_orders
      in budget_loop (budget_step p equity1_orders equity1_comm equity2_orders equity2_comm)
           [0..<length equity1_orders - 1] b)"

text \<open>
  The initial budget \<^verbatim>\<open>1000 * (equity1.closed.iloc[0] + equity2.closed.iloc[0])\<close>.
\<close>

definition init_budget :: "Pair \<Rightarrow> error + real" where
  "init_budget p =
     (case iloc (closed_prices (equity1 p)) 0 of
        Inl e \<Rightarrow> Inl e
      | Inr y1 \<Rightarrow>
          (case iloc (closed_prices (equity2 p)) 0 of
             Inl e \<Rightarrow> Inl e
           | Inr y2 \<Rightarrow> Inr (1000 * (y1 + y2))))"

text \<open>
  \<^verbatim>\<open>Strategy.returns\<close>. The budget starts at the truncated initial budget; the result
  divides by the initial budget itself. A division by zero gives no real number.
\<close>

definition returns :: "Strategy \<Rightarrow> error + real" where
  "returns self =
     (let optimal_positions = positions self;
          rp = rounded_positions (lookback self) optimal_positions;
          equity1_orders = orders (map fst rp);
          equity2_orders = orders (map snd rp)
      in case init_budget (pair self) of
           Inl e \<Rightarrow> Inl e
         | Inr ib \<Rightarrow>
             (case final_budget (pair self) equity1_orders equity2_orders (truncate ib 2) of
                Inl e \<Rightarrow> Inl e
              | Inr b \<Rightarrow> if ib = 0 then Inl NonFinite else Inr (b / ib - 1)))"

subsection \<open>Theoretical and cumulative returns\<close>

text \<open>
  \<^verbatim>\<open>Strategy.th_returns\<close>, one entry per date, \<open>None\<close> for NaN. Row \<open>0\<close> of the shifted
  allocations and of the percent changes is NaN. For \<open>i > 0\<close> the allocation of the day
  before is position times close, the percent change is \<open>close i / close (i - 1) - 1\<close>,
  and the entry is the sum of their products over the sum of the absolute allocations.
  That quotient is NaN where a close of the day before is zero (zero times a non-finite
  change) and where both allocations are zero (zero over zero). The elementwise product
  \<^verbatim>\<open>optimal_positions * df.values\<close> needs one row of positions per date; numpy repeats
  a single row of positions for every date and raises on any other difference of shapes.
\<close>

definition th_return_at :: "frame \<Rightarrow> frame \<Rightarrow> nat \<Rightarrow> real option" where
  "th_return_at optimal_positions df i =
     (let a1 = fst (optimal_positions ! (i - 1)) * fst (df ! (i - 1));
          a2 = snd (optimal_positions ! (i - 1)) * snd (df ! (i - 1));
          pnl = a1 * (fst (df ! i) / fst (df ! (i - 1)) - 1)
                + a2 * (snd (df ! i) / snd (df ! (i - 1)) - 1);
          total_position = \<bar>a1\<bar> + \<bar>a2\<bar>
      in if i = 0 \<or> fst (df ! (i - 1)) = 0 \<or> snd (df ! (i - 1)) = 0 \<or> total_position = 0
         then None else Some (pnl / total_position))"

definition th_returns :: "Strategy \<Rightarrow> error + real option list" where
  "th_returns self =
     (let optimal_positions = positions self;
          df = closed_frame (pair self)
      in if length optimal_positions = length df
         then Inr (map (th_return_at optimal_positions df) [0..<length df])
         else if length optimal_positions = 1
         then Inr (map (th_return_at (replicate (length df) (hd optimal_positions)) df)
                     [0..<length df])
         else Inl ValueError)"

text \<open>
  \<^verbatim>\<open>np.cumprod\<close> of a pandas series is the cumulative product of the series, which skips
  NaN: a NaN entry stays NaN and does not enter the product.
\<close>

fun cumprod_from :: "real \<Rightarrow> real option list \<Rightarrow> real option list" where
  "cumprod_from acc [] = []"
| "cumprod_from acc (None # xs) = None # cumprod_from acc xs"
| "cumprod_from acc (Some x # xs) = Some (acc * x) # cumprod_from (acc * x) xs"

definition cumprod :: "real option list \<Rightarrow> real option list" where
  "cumprod xs = cumprod_from 1 xs"

text \<open>
  \<^verbatim>\<open>fillna(method='ffill')\<close>: a NaN entry takes the last entry before it that is not NaN,
  and stays NaN where there is none.
\<close>

fun ffill_from :: "real option \<Rightarrow> real option list \<Rightarrow> real option list" where
  "ffill_from prev [] = []"
| "ffill_from prev (None # xs) = prev # ffill_from prev xs"
| "ffill_from prev (Some x # xs) = Some x # ffill_from (Some x) xs"

definition ffill :: "real option list \<Rightarrow> real option list" where
  "ffill xs = ffill_from None xs"

text \<open>The body of \<^verbatim>\<open>Strategy.cum_returns\<close> on the series \<^verbatim>\<open>ret\<close>, and the method.\<close>

definition cum_ret :: "real option list \<Rightarrow> real option list" where
  "cum_ret ret =
     ffill (map (map_option (\<lambda>c. c - 1)) (cumprod (map (map_option (\<lambda>r. 1 + r)) ret)))"

definition cum_returns :: "Strategy \<Rightarrow> error + real option list" where
  "cum_returns self = (case th_returns self of Inl e \<Rightarrow> Inl e | Inr ret \<Rightarrow> Inr (cum_ret ret))"

text \<open>The entries of a series that are not NaN, in order.\<close>

fun available :: "real option list \<Rightarrow> real list" where
  "available [] = []"
| "available (None # xs) = available xs"
| "available (Some x # xs) = x # available xs"

subsection \<open>Fixtures\<close>

text \<open>Two equities on four shared dates, and the pair of them before any call.\<close>

definition fixture_equity1 :: Equity where
  "fixture_equity1 = \<lparr>symbol = ''V'', equity_start_date = 0, equity_end_date = 3,
     closed_prices = [1, 2, 3, 5]\<rparr>"

definition fixture_equity2 :: Equity where
  "fixture_equity2 = \<lparr>symbol = ''MA'', equity_start_date = 0, equity_end_date = 3,
     closed_prices = [2, 4, 5, 6]\<rparr>"

definition fixture_pair :: Pair where
  "fixture_pair = \<lparr>equity1 = fixture_equity1, equity2 = fixture_equity2, start_date = 0,
     end_date = 3, hedge_ratios = None, price_spread_cache = None\<rparr>"

text \<open>A pair whose most recent closes are \<open>100.0\<close> and \<open>50.0\<close>.\<close>

definition budget_fixture :: Pair where
  "budget_fixture =
     \<lparr>equity1 = \<lparr>symbol = ''A'', equity_start_date = 0, equity_end_date = 1,
                  closed_prices = [98.5, 100.0]\<rparr>,
      equity2 = \<lparr>symbol = ''B'', equity_start_date = 0, equity_end_date = 1,
                  closed_prices = [51.25, 50.0]\<rparr>,
      start_date = 0, end_date = 1, hedge_ratios = None, price_spread_cache = None\<rparr>"

text \<open>
  The states of the fixture pair along the calls \<^verbatim>\<open>hedge('OLS', 2)\<close>, a read of
  \<^verbatim>\<open>price_spread\<close>, \<^verbatim>\<open>hedge('OLS', 3)\<close>.
\<close>

definition fixture_hedged2 :: Pair where
  "fixture_hedged2 = fixture_pair\<lparr>hedge_ratios := Some [(0, 0), (1, - 1 / 2), (1, - 1), (0, 0)]\<rparr>"

definition fixture_read2 :: Pair where
  "fixture_read2 = fixture_hedged2\<lparr>price_spread_cache := Some [0, 0, - 2, 0]\<rparr>"

definition fixture_rehedged3 :: Pair where
  "fixture_rehedged3 = fixture_read2\<lparr>hedge_ratios := Some [(0, 0), (0, 0), (1, - 9 / 14), (0, 0)]\<rparr>"

text \<open>A strategy on the fixture pair that holds nothing on the second date.\<close>

definition fixture_strategy :: Strategy where
  "fixture_strategy = \<lparr>pair = fixture_pair, lookback = 1,
     positions = [(1, - 1), (0, 0), (1, - 1), (1, - 1)]\<rparr>"

text \<open>
  A strategy that holds nothing at any date, on closes whose initial budget
  \<open>1000 * (1.000001 + 1)\<close> has three decimal places.
\<close>

definition flat_strategy :: Strategy where
  "flat_strategy =
     \<lparr>pair = \<lparr>equity1 = \<lparr>symbol = ''A'', equity_start_date = 0, equity_end_date = 2,
                           closed_prices = [1.000001, 1, 1]\<rparr>,
               equity2 = \<lparr>symbol = ''B'', equity_start_date = 0, equity_end_date = 2,
                           closed_prices = [1, 1, 1]\<rparr>,
               start_date = 0, end_date = 2, hedge_ratios = None, price_spread_cache = None\<rparr>,
      lookback = 1, positions = [(0, 0), (0, 0), (0, 0)]\<rparr>"

text \<open>A strategy that trades on the second and third date of the fixture pair.\<close>

definition trade_strategy :: Strategy where
  "trade_strategy = \<lparr>pair = fixture_pair, lookback = 1,
     positions = [(1.2345, - 0.5), (1.2345, - 0.5), (2, - 1), (7, 7)]\<rparr>"

section \<open>Properties\<close>

subsection \<open>Truncation\<close>

lemma truncate_examples:
  "truncate 1.2399 2 = 1.23" "truncate (- 1.2399) 2 = - 1.23"
  by (simp_all add: truncate_def)

text \<open>Truncation is toward zero: the magnitude is rounded down and the sign is kept.\<close>

lemma truncate_toward_zero:
  "truncate x n = sgn x * of_int \<lfloor>\<bar>x\<bar> * 10 ^ n\<rfloor> / 10 ^ n"
proof (cases "0 \<le> x")
  case True
  then show ?thesis
    by (cases "x = 0") (simp_all add: truncate_def sgn_if)
next
  case False
  then have "\<lceil>x * 10 ^ n\<rceil> = - \<lfloor>\<bar>x\<bar> * 10 ^ n\<rfloor>"
    by (simp add: ceiling_def)
  with False show ?thesis
    by (simp add: truncate_def sgn_if)
qed

lemma truncate_zero [simp]: "truncate 0 n = 0"
  by (simp add: truncate_def)

lemma truncate_of_int [simp]: "truncate (of_int k) n = of_int k"
proof -
  have "(of_int k :: real) * 10 ^ n = of_int (k * 10 ^ n)"
    by simp
  then have "\<lfloor>(of_int k :: real) * 10 ^ n\<rfloor> = k * 10 ^ n"
    and "\<lceil>(of_int k :: real) * 10 ^ n\<rceil> = k * 10 ^ n"
    by (simp_all only: floor_of_int ceiling_of_int)
  then show ?thesis
    by (simp add: truncate_def)
qed

subsection \<open>Construction of a pair\<close>

text \<open>
  C8. Constructing a pair from two equities resolves the start date as the later of the
  two start dates and the end date as the earlier of the two end dates. The construction
  fails (with the \<^verbatim>\<open>ValueError\<close> of the source) exactly when the end date is not after the
  start date, it fails in no other way, and every constructed pair has its end date
  strictly after its start date.
\<close>

theorem Pair_init_date_range:
  "(Pair_init e1 e2 = Inl ValueError \<longleftrightarrow>
      min (equity_end_date e1) (equity_end_date e2)
        \<le> max (equity_start_date e1) (equity_start_date e2)) \<and>
   (\<forall>p. Pair_init e1 e2 = Inr p \<longrightarrow>
      start_date p = max (equity_start_date e1) (equity_start_date e2) \<and>
      end_date p = min (equity_end_date e1) (equity_end_date e2) \<and>
      start_date p < end_date p) \<and>
   (Pair_init e1 e2 = Inl ValueError \<or> (\<exists>p. Pair_init e1 e2 = Inr p))"
  by (auto simp: Pair_init_def Let_def max_def min_def)

theorem Pair_init_date_range_witness:
  "Pair_init fixture_equity1 (fixture_equity2\<lparr>equity_start_date := 1, equity_end_date := 7\<rparr>)
     \<noteq> Inl ValueError \<and>
   Pair_init fixture_equity1 (fixture_equity2\<lparr>equity_start_date := 3, equity_end_date := 7\<rparr>)
     = Inl ValueError"
  using Pair_init_date_range [of fixture_equity1
      "fixture_equity2\<lparr>equity_start_date := 1, equity_end_date := 7\<rparr>"]
    Pair_init_date_range [of fixture_equity1
      "fixture_equity2\<lparr>equity_start_date := 3, equity_end_date := 7\<rparr>"]
  by (simp add: fixture_equity1_def fixture_equity2_def)

subsection \<open>The budget of a pair\<close>

text \<open>
  C9. For a hedge-ratio vector of length 2 and \<open>dec \<ge> 0\<close>, on a pair whose two series
  are not empty, \<^verbatim>\<open>budget\<close> truncates each component to \<open>dec\<close> places, takes its
  magnitude, scales it by \<open>10 ^ dec\<close>, multiplies it by the most recent close of its
  equity, sums the two products and truncates the sum to 2 places. On most recent closes
  \<open>100.0\<close> and \<open>50.0\<close>, the vector \<open>[1.0, -0.5]\<close> with \<open>dec = 2\<close> gives
  \<open>100.0 * 1.0 * 100 + 50.0 * 0.5 * 100\<close> truncated to 2 places, which is \<open>12500\<close>.
\<close>

theorem budget_value:
  "(0 \<le> dec \<and> closed_prices (equity1 p) \<noteq> [] \<and> closed_prices (equity2 p) \<noteq> [] \<longrightarrow>
      budget p [h1, h2] dec =
        Inr (truncate
          (last (closed_prices (equity1 p)) * \<bar>truncate h1 (nat dec)\<bar> * 10 ^ nat dec
           + last (closed_prices (equity2 p)) * \<bar>truncate h2 (nat dec)\<bar> * 10 ^ nat dec) 2)) \<and>
   budget budget_fixture [1.0, - 0.5] 2 = Inr (truncate (100.0 * 1.0 * 100 + 50.0 * 0.5 * 100) 2) \<and>
   budget budget_fixture [1.0, - 0.5] 2 = Inr 12500"
proof -
  have "truncate (100.0 * 1.0 * 100 + 50.0 * 0.5 * 100) 2 = 12500"
    using truncate_of_int [of 12500 2] by simp
  moreover have "truncate 1.0 2 = 1" "truncate (- 0.5) 2 = - 0.5"
    by (simp_all add: truncate_def)
  ultimately show ?thesis
    by (simp add: budget_def iloc_last_def budget_fixture_def)
qed

theorem budget_value_witness:
  "budget fixture_pair [1.239, - 0.5] 1 = Inr 90"
  using budget_value [of 1 fixture_pair "1.239" "- 0.5"]
  by (simp add: truncate_def fixture_pair_def fixture_equity1_def fixture_equity2_def)

subsection \<open>One round of the budget loop\<close>

lemma budget_step_value:
  assumes "i < length (closed_prices (equity1 p))" "i < length (closed_prices (equity2 p))"
  shows "budget_step p o1 c1 o2 c2 i b =
    Inr (b + (- 1 * o1 ! i * closed_prices (equity1 p) ! i - c1 ! i)
           + (- 1 * o2 ! i * closed_prices (equity2 p) ! i - c2 ! i))"
  using assms by (simp add: budget_step_def iloc_def)

subsection \<open>Hedge ratios by rolling regression\<close>


lemma length_fold_hedge [simp]:
  "length (fold (hedge_ols_step fit df L) is hr) = length hr"
  by (induction "is" arbitrary: hr) (simp_all add: hedge_ols_step_def)

lemma nth_fold_hedge:
  "0 < a \<Longrightarrow> b \<le> length hr \<Longrightarrow> j < length hr \<Longrightarrow>
   fold (hedge_ols_step fit df L) [a..<b] hr ! j =
     (if a \<le> Suc j \<and> Suc j < b then (1, - fit (slice df (Suc j - L) (Suc j))) else hr ! j)"
proof (induction b)
  case 0
  then show ?case by simp
next
  case (Suc b)
  let ?prev = "fold (hedge_ols_step fit df L) [a..<b] hr"
  show ?case
  proof (cases "a \<le> b")
    case True
    then have unfold: "fold (hedge_ols_step fit df L) [a..<Suc b] hr =
      ?prev[b - 1 := (1, - fit (slice df (b - L) b))]"
      using Suc.prems(1) by (simp add: hedge_ols_step_def row_before_def)
    have ih: "?prev ! j =
      (if a \<le> Suc j \<and> Suc j < b then (1, - fit (slice df (Suc j - L) (Suc j))) else hr ! j)"
      using Suc by simp
    show ?thesis
    proof (cases "j = b - 1")
      case True
      with \<open>a \<le> b\<close> Suc.prems show ?thesis
        unfolding unfold by (simp add: nth_list_update)
    next
      case False
      then have "?prev[b - 1 := (1, - fit (slice df (b - L) b))] ! j = ?prev ! j"
        by simp
      with False ih \<open>a \<le> b\<close> Suc.prems show ?thesis
        unfolding unfold by (auto simp: less_Suc_eq)
    qed
  next
    case False
    then show ?thesis by auto
  qed
qed

lemma length_hedge_ols [simp]: "length (hedge_ols fit p L) = length (closed_frame p)"
  by (simp add: hedge_ols_def Let_def)

text \<open>
  Every row of the result of \<^verbatim>\<open>_hedge_ols\<close>, for a positive lookback: row \<open>j\<close> holds the
  regression over the \<open>L\<close> rows that end with row \<open>j\<close> where \<open>L \<le> j + 1 < n\<close>, and is
  zero elsewhere.
\<close>

lemma nth_hedge_ols:
  assumes "0 < L" "j < length (closed_frame p)"
  shows "hedge_ols fit p L ! j =
    (if L \<le> Suc j \<and> Suc j < length (closed_frame p)
     then (1, - fit (slice (closed_frame p) (Suc j - L) (Suc j))) else (0, 0))"
  using assms by (simp add: hedge_ols_def Let_def nth_fold_hedge)

lemma hedge_OLS_result:
  "hedge fit ''OLS'' L p = Inr p' \<longleftrightarrow>
     0 < L \<and> p' = p\<lparr>hedge_ratios := Some (hedge_ols fit p (nat L))\<rparr>"
  by (auto simp: hedge_def)

lemma fixture_hedge_2:
  "hedge_ols ols_gradient fixture_pair 2 = [(0, 0), (1, - 1 / 2), (1, - 1), (0, 0)]"
  by (simp add: hedge_ols_def closed_frame_def fixture_pair_def fixture_equity1_def
      fixture_equity2_def upt_rec hedge_ols_step_def row_before_def slice_def ols_gradient_def)

lemma fixture_hedge_3:
  "hedge_ols ols_gradient fixture_pair 3 = [(0, 0), (0, 0), (1, - 9 / 14), (0, 0)]"
  by (simp add: hedge_ols_def closed_frame_def fixture_pair_def fixture_equity1_def
      fixture_equity2_def upt_rec hedge_ols_step_def row_before_def slice_def ols_gradient_def)

lemma fixture_frame:
  "closed_frame fixture_pair = [(1, 2), (2, 4), (3, 5), (5, 6)]"
  by (simp add: closed_frame_def fixture_pair_def fixture_equity1_def fixture_equity2_def)

text \<open>
  C1, as stated, fails: with lookback 2 on four dates, row 1 of the hedge ratios is
  \<open>[1, -1/2]\<close>, and its index is less than the lookback.
\<close>

theorem hedge_warm_up_counterexample:
  "hedge ols_gradient ''OLS'' 2 fixture_pair =
     Inr (fixture_pair\<lparr>hedge_ratios := Some [(0, 0), (1, - 1 / 2), (1, - 1), (0, 0)]\<rparr>) \<and>
   (1 :: nat) < 2 \<and>
   [(0, 0), (1, - 1 / 2), (1, - 1), (0, 0)] ! 1 \<noteq> (0 :: real, 0 :: real)"
  by (simp add: hedge_def fixture_hedge_2)

text \<open>
  C1, amended. After a successful \<^verbatim>\<open>hedge('OLS', L)\<close> the hedge ratios have one row per
  date, every row with index strictly less than \<open>L - 1\<close> is exactly \<open>[0, 0]\<close>, and row
  \<open>L - 1\<close> is \<open>[1, -\<beta>]\<close> for the regression over the first \<open>L\<close> rows whenever the series
  has more than \<open>L\<close> rows.
\<close>

theorem hedge_warm_up:
  "hedge fit ''OLS'' L p = Inr p' \<longrightarrow>
     (\<exists>hr. hedge_ratios p' = Some hr \<and> length hr = length (closed_frame p) \<and>
       (\<forall>i. i < length hr \<and> int i < L - 1 \<longrightarrow> hr ! i = (0, 0)) \<and>
       (nat L < length hr \<longrightarrow>
          hr ! (nat L - 1) = (1, - fit (slice (closed_frame p) 0 (nat L)))))"
proof
  assume "hedge fit ''OLS'' L p = Inr p'"
  then have L: "0 < L" and p': "p' = p\<lparr>hedge_ratios := Some (hedge_ols fit p (nat L))\<rparr>"
    by (simp_all add: hedge_OLS_result)
  let ?hr = "hedge_ols fit p (nat L)"
  have "hedge_ratios p' = Some ?hr" "length ?hr = length (closed_frame p)"
    by (simp_all add: p')
  moreover have "\<forall>i. i < length ?hr \<and> int i < L - 1 \<longrightarrow> ?hr ! i = (0, 0)"
    using L by (auto simp: nth_hedge_ols)
  moreover have "nat L < length ?hr \<longrightarrow>
      ?hr ! (nat L - 1) = (1, - fit (slice (closed_frame p) 0 (nat L)))"
  proof
    assume n: "nat L < length ?hr"
    with L have "nat L - 1 < length (closed_frame p)" "Suc (nat L - 1) = nat L"
      by simp_all
    with L n show "?hr ! (nat L - 1) = (1, - fit (slice (closed_frame p) 0 (nat L)))"
      by (simp add: nth_hedge_ols)
  qed
  ultimately show "\<exists>hr. hedge_ratios p' = Some hr \<and> length hr = length (closed_frame p) \<and>
       (\<forall>i. i < length hr \<and> int i < L - 1 \<longrightarrow> hr ! i = (0, 0)) \<and>
       (nat L < length hr \<longrightarrow>
          hr ! (nat L - 1) = (1, - fit (slice (closed_frame p) 0 (nat L))))"
    by blast
qed

theorem hedge_warm_up_witness:
  "hedge ols_gradient ''OLS'' 3 fixture_pair =
     Inr (fixture_pair\<lparr>hedge_ratios := Some [(0, 0), (0, 0), (1, - 9 / 14), (0, 0)]\<rparr>) \<and>
   ols_gradient (slice (closed_frame fixture_pair) 0 3) = 9 / 14"
  using hedge_warm_up [of ols_gradient 3 fixture_pair
      "fixture_pair\<lparr>hedge_ratios := Some [(0, 0), (0, 0), (1, - 9 / 14), (0, 0)]\<rparr>"]
  by (simp add: hedge_def fixture_hedge_3 fixture_frame)



subsection \<open>The price spread and its cache\<close>

lemma reachable_cache:
  "reachable fit p \<Longrightarrow> hedge_ratios p = None \<Longrightarrow> price_spread_cache p = None"
proof (induction rule: reachable.induct)
  case (constructed e1 e2 p)
  then show ?case
    by (auto simp: Pair_init_def Let_def split: if_splits)
next
  case (hedged p m l p')
  then show ?case
    by (auto simp: hedge_def split: if_splits)
next
  case (spread_read p r p')
  then show ?case
    by (auto simp: price_spread_def Let_def split: option.splits)
qed

lemma nth_spread_of:
  assumes "i < length hr" "i < length c1" "i < length c2"
  shows "spread_of hr (zip c1 c2) ! i = fst (hr ! i) * c1 ! i + snd (hr ! i) * c2 ! i"
  using assms by (simp add: spread_of_def split_beta)

lemma length_spread_of [simp]: "length (spread_of hr prices) = min (length hr) (length prices)"
  by (simp add: spread_of_def)

lemma fixture_reachable: "reachable ols_gradient fixture_pair"
proof -
  have "Pair_init fixture_equity1 fixture_equity2 = Inr fixture_pair"
    by (simp add: Pair_init_def fixture_pair_def fixture_equity1_def fixture_equity2_def)
  then show ?thesis
    by (rule reachable.constructed)
qed

lemma fixture_hedged2_step: "hedge ols_gradient ''OLS'' 2 fixture_pair = Inr fixture_hedged2"
  by (simp add: hedge_def fixture_hedge_2 fixture_hedged2_def)

lemma fixture_hedged2_frame: "closed_frame fixture_hedged2 = [(1, 2), (2, 4), (3, 5), (5, 6)]"
  using fixture_frame by (simp add: closed_frame_def fixture_hedged2_def)

lemma fixture_read2_step: "price_spread fixture_hedged2 = (Inr [0, 0, - 2, 0], fixture_read2)"
proof -
  have "hedge_ratios fixture_hedged2 = Some [(0, 0), (1, - 1 / 2), (1, - 1), (0, 0)]"
    and "price_spread_cache fixture_hedged2 = None"
    by (simp_all add: fixture_hedged2_def fixture_pair_def)
  then show ?thesis
    by (simp add: price_spread_def Let_def fixture_hedged2_frame spread_of_def fixture_read2_def)
qed

lemma fixture_read2_again: "price_spread fixture_read2 = (Inr [0, 0, - 2, 0], fixture_read2)"
  by (simp add: price_spread_def fixture_read2_def fixture_hedged2_def)

text \<open>
  What holds of the read. While no hedge ratios have been estimated it fails (with the
  \<^verbatim>\<open>Exception\<close> of the source) and leaves the pair as it was. After the estimate that
  first succeeds on a pair, the read returns one value per date, for every date
  \<open>h1 * close1 + h2 * close2\<close> with the hedge vector of that date, and a second read
  returns the same values.
\<close>

lemma price_spread_first_estimate:
  "(hedge_ratios p = None \<longrightarrow> price_spread p = (Inl Exception, p)) \<and>
   (reachable fit p \<and> hedge_ratios p = None \<and> hedge fit method L p = Inr p' \<longrightarrow>
      (\<exists>hr sp p''. hedge_ratios p' = Some hr \<and> price_spread p' = (Inr sp, p'') \<and>
         length sp = length (closed_frame p') \<and>
         (\<forall>i. i < length sp \<longrightarrow>
            sp ! i = fst (hr ! i) * closed_prices (equity1 p') ! i
                     + snd (hr ! i) * closed_prices (equity2 p') ! i) \<and>
         hedge_ratios p'' = Some hr \<and> price_spread p'' = (Inr sp, p'')))"
proof (intro conjI impI)
  assume "hedge_ratios p = None"
  then show "price_spread p = (Inl Exception, p)"
    by (simp add: price_spread_def)
next
  assume a: "reachable fit p \<and> hedge_ratios p = None \<and> hedge fit method L p = Inr p'"
  then have cache: "price_spread_cache p = None"
    using reachable_cache by blast
  from a have p': "p' = p\<lparr>hedge_ratios := Some (hedge_ols fit p (nat L))\<rparr>" and L: "0 < L"
    by (auto simp: hedge_def split: if_splits)
  let ?hr = "hedge_ols fit p (nat L)"
  let ?sp = "spread_of ?hr (closed_frame p')"
  let ?p'' = "p'\<lparr>price_spread_cache := Some ?sp\<rparr>"
  have frame: "closed_frame p' = closed_frame p"
    by (simp add: p' closed_frame_def)
  have "hedge_ratios p' = Some ?hr"
    by (simp add: p')
  moreover have "price_spread p' = (Inr ?sp, ?p'')"
    using cache by (simp add: price_spread_def Let_def p')
  moreover have "length ?sp = length (closed_frame p')"
    by (simp add: frame)
  moreover have "\<forall>i. i < length ?sp \<longrightarrow>
      ?sp ! i = fst (?hr ! i) * closed_prices (equity1 p') ! i
                + snd (?hr ! i) * closed_prices (equity2 p') ! i"
    by (simp add: frame) (simp add: closed_frame_def p' nth_spread_of)
  moreover have "hedge_ratios ?p'' = Some ?hr"
    by (simp add: p')
  moreover have "price_spread ?p'' = (Inr ?sp, ?p'')"
    by (simp add: price_spread_def p')
  ultimately show "\<exists>hr sp p''. hedge_ratios p' = Some hr \<and> price_spread p' = (Inr sp, p'') \<and>
         length sp = length (closed_frame p') \<and>
         (\<forall>i. i < length sp \<longrightarrow>
            sp ! i = fst (hr ! i) * closed_prices (equity1 p') ! i
                     + snd (hr ! i) * closed_prices (equity2 p') ! i) \<and>
         hedge_ratios p'' = Some hr \<and> price_spread p'' = (Inr sp, p'')"
    by blast
qed

lemma price_spread_first_estimate_fixture:
  "price_spread fixture_pair = (Inl Exception, fixture_pair) \<and>
   hedge ols_gradient ''OLS'' 2 fixture_pair = Inr fixture_hedged2 \<and>
   price_spread fixture_hedged2 = (Inr [0, 0, - 2, 0], fixture_read2) \<and>
   [0, 0, - 2, 0] ! 2 = fst ((1, - 1) :: real \<times> real) * [1, 2, 3, 5] ! 2
                        + snd ((1, - 1) :: real \<times> real) * [2, 4, 5, (6 :: real)] ! 2 \<and>
   price_spread fixture_read2 = (Inr [0, 0, - 2, 0], fixture_read2)"
proof -
  have none: "hedge_ratios fixture_pair = None"
    by (simp add: fixture_pair_def)
  note inst = price_spread_first_estimate [of fixture_pair ols_gradient "''OLS''" 2 fixture_hedged2]
  from inst none have "price_spread fixture_pair = (Inl Exception, fixture_pair)"
    by blast
  moreover from inst none fixture_reachable fixture_hedged2_step
  obtain hr sp p'' where "hedge_ratios fixture_hedged2 = Some hr"
    and "price_spread fixture_hedged2 = (Inr sp, p'')"
    and "price_spread p'' = (Inr sp, p'')"
    by blast
  then have "price_spread fixture_read2 = (Inr [0, 0, - 2, 0], fixture_read2)"
    by (simp add: fixture_read2_step)
  ultimately show ?thesis
    by (simp add: fixture_hedged2_step fixture_read2_step)
qed

text \<open>
  C2 fails on the code: \<^verbatim>\<open>hedge\<close> assigns the new hedge ratios and leaves the cached spread
  in place. On the fixture pair, after \<^verbatim>\<open>hedge('OLS', 2)\<close>, a read of the spread and
  \<^verbatim>\<open>hedge('OLS', 3)\<close>, the pair is reachable, and the read of the spread returns the values
  computed from the hedge ratios of lookback 2, which differ from the spread of the
  hedge ratios the pair now holds.
\<close>

theorem price_spread_stale_after_rehedge:
  "hedge ols_gradient ''OLS'' 2 fixture_pair = Inr fixture_hedged2 \<and>
   price_spread fixture_hedged2 = (Inr [0, 0, - 2, 0], fixture_read2) \<and>
   hedge ols_gradient ''OLS'' 3 fixture_read2 = Inr fixture_rehedged3 \<and>
   reachable ols_gradient fixture_rehedged3 \<and>
   hedge_ratios fixture_rehedged3 = Some [(0, 0), (0, 0), (1, - 9 / 14), (0, 0)] \<and>
   price_spread fixture_rehedged3 = (Inr [0, 0, - 2, 0], fixture_rehedged3) \<and>
   spread_of [(0, 0), (0, 0), (1, - 9 / 14), (0, 0)] (closed_frame fixture_rehedged3)
     = [0, 0, - 3 / 14, 0]"
proof -
  note h2 = fixture_hedged2_step
  note r2 = fixture_read2_step
  have ols3: "hedge_ols ols_gradient fixture_read2 3 = hedge_ols ols_gradient fixture_pair 3"
    by (simp add: hedge_ols_def closed_frame_def fixture_read2_def fixture_hedged2_def)
  have h3: "hedge ols_gradient ''OLS'' 3 fixture_read2 = Inr fixture_rehedged3"
    by (simp add: hedge_def ols3 fixture_hedge_3 fixture_rehedged3_def)
  have "reachable ols_gradient fixture_hedged2"
    using fixture_reachable h2 by (rule reachable.hedged)
  then have "reachable ols_gradient fixture_read2"
    using r2 by (rule reachable.spread_read)
  then have reach: "reachable ols_gradient fixture_rehedged3"
    using h3 by (rule reachable.hedged)
  have hr3: "hedge_ratios fixture_rehedged3 = Some [(0, 0), (0, 0), (1, - 9 / 14), (0, 0)]"
    by (simp add: fixture_rehedged3_def)
  have r3: "price_spread fixture_rehedged3 = (Inr [0, 0, - 2, 0], fixture_rehedged3)"
    by (simp add: price_spread_def hr3) (simp add: fixture_rehedged3_def fixture_read2_def)
  have frame3: "closed_frame fixture_rehedged3 = [(1, 2), (2, 4), (3, 5), (5, 6)]"
    using fixture_frame
    by (simp add: closed_frame_def fixture_rehedged3_def fixture_read2_def fixture_hedged2_def)
  have fresh: "spread_of [(0, 0), (0, 0), (1, - 9 / 14), (0, 0)] (closed_frame fixture_rehedged3)
     = [0, 0, - 3 / 14, 0]"
    by (simp add: frame3 spread_of_def)
  from h2 r2 h3 reach hr3 r3 fresh show ?thesis
    by (intro conjI)
qed

lemma fixture_rehedged3_step:
  "hedge ols_gradient ''OLS'' 3 fixture_read2 = Inr fixture_rehedged3"
proof -
  have "hedge_ols ols_gradient fixture_read2 3 = hedge_ols ols_gradient fixture_pair 3"
    by (simp add: hedge_ols_def closed_frame_def fixture_read2_def fixture_hedged2_def)
  then show ?thesis
    by (simp add: hedge_def fixture_hedge_3 fixture_rehedged3_def)
qed

lemma fixture_read2_reachable: "reachable ols_gradient fixture_read2"
proof -
  have "reachable ols_gradient fixture_hedged2"
    using fixture_reachable fixture_hedged2_step by (rule reachable.hedged)
  then show ?thesis
    using fixture_read2_step by (rule reachable.spread_read)
qed

text \<open>
  C6 holds of the read before any estimate and of the read after the first estimate, and
  fails on the code after a later one, by the defect shown for C2: the cached spread
  outlives the call of \<^verbatim>\<open>hedge\<close>. The pair \<open>fixture_read2\<close> is reachable;
  \<^verbatim>\<open>hedge('OLS', 3)\<close> succeeds on it and assigns the hedge vector \<open>[1, -9/14]\<close> to the
  third date; the read that follows returns \<open>-2\<close> for that date, and
  \<open>h1 * close1 + h2 * close2\<close> with the hedge vector of that date is \<open>-3/14\<close>.
\<close>

theorem price_spread_after_rehedge_not_pointwise:
  "reachable ols_gradient fixture_read2 \<and>
   hedge ols_gradient ''OLS'' 3 fixture_read2 = Inr fixture_rehedged3 \<and>
   hedge_ratios fixture_rehedged3 = Some [(0, 0), (0, 0), (1, - 9 / 14), (0, 0)] \<and>
   closed_prices (equity1 fixture_rehedged3) = [1, 2, 3, 5] \<and>
   closed_prices (equity2 fixture_rehedged3) = [2, 4, 5, 6] \<and>
   fst (price_spread fixture_rehedged3) = Inr [0, 0, - 2, 0] \<and>
   [0, 0, - 2, 0 :: real] ! 2 = - 2 \<and>
   fst ([(0, 0), (0, 0), (1, - 9 / 14), (0, 0 :: real)] ! 2) * [1, 2, 3, 5] ! 2
     + snd ([(0, 0), (0, 0), (1, - 9 / 14), (0, 0 :: real)] ! 2) * [2, 4, 5, 6] ! 2
     = (- 3 / 14 :: real)"
proof -
  have hr: "hedge_ratios fixture_rehedged3 = Some [(0, 0), (0, 0), (1, - 9 / 14), (0, 0)]"
    by (simp add: fixture_rehedged3_def)
  have closes: "closed_prices (equity1 fixture_rehedged3) = [1, 2, 3, 5]"
    "closed_prices (equity2 fixture_rehedged3) = [2, 4, 5, 6]"
    by (simp_all add: fixture_rehedged3_def fixture_read2_def fixture_hedged2_def
        fixture_pair_def fixture_equity1_def fixture_equity2_def)
  have read: "fst (price_spread fixture_rehedged3) = Inr [0, 0, - 2, 0]"
    by (simp add: price_spread_def hr) (simp add: fixture_rehedged3_def fixture_read2_def)
  from fixture_read2_reachable fixture_rehedged3_step hr closes read show ?thesis
    by simp
qed

subsection \<open>Cumulative returns\<close>

lemma available_append: "available (xs @ ys) = available xs @ available ys"
  by (induction xs rule: available.induct) simp_all

lemma length_cumprod_from [simp]: "length (cumprod_from acc xs) = length xs"
  by (induction acc xs rule: cumprod_from.induct) simp_all

lemma length_ffill_from [simp]: "length (ffill_from prev xs) = length xs"
  by (induction prev xs rule: ffill_from.induct) simp_all

lemma length_cum_ret [simp]: "length (cum_ret ret) = length ret"
  by (simp add: cum_ret_def ffill_def cumprod_def)

text \<open>
  The loop invariant of the two passes: with the product \<open>acc\<close> so far and the last
  cumulative value \<open>prev\<close> so far, entry \<open>i\<close> is \<open>prev\<close> until a return is available,
  and the product over the available returns up to \<open>i\<close>, minus one, from then on.
\<close>

lemma nth_cum_from:
  "i < length ret \<Longrightarrow>
   ffill_from prev
     (map (map_option (\<lambda>c. c - 1)) (cumprod_from acc (map (map_option (\<lambda>r. 1 + r)) ret))) ! i =
   (if available (take (Suc i) ret) = [] then prev
    else Some (acc * prod_list (map (\<lambda>r. 1 + r) (available (take (Suc i) ret))) - 1))"
proof (induction ret arbitrary: acc prev i)
  case Nil
  then show ?case by simp
next
  case (Cons x ret)
  show ?case
  proof (cases x)
    case None
    with Cons show ?thesis
      by (cases i) simp_all
  next
    case (Some r)
    with Cons show ?thesis
      by (cases i) (simp_all add: mult.assoc)
  qed
qed

lemma nth_cum_ret:
  "i < length ret \<Longrightarrow>
   cum_ret ret ! i =
     (if available (take (Suc i) ret) = [] then None
      else Some (prod_list (map (\<lambda>r. 1 + r) (available (take (Suc i) ret))) - 1))"
  using nth_cum_from [of i ret None 1] by (simp add: cum_ret_def ffill_def cumprod_def)

lemma available_take_Suc:
  assumes "i < length ret"
  shows "available (take (Suc i) ret) =
    available (take i ret) @ (case ret ! i of None \<Rightarrow> [] | Some r \<Rightarrow> [r])"
  using assms by (simp add: take_Suc_conv_app_nth available_append split: option.splits)

lemma fixture_th_returns:
  "th_returns fixture_strategy = Inr [None, Some (- 1 / 3), None, Some (1 / 8)]"
  by (simp add: th_returns_def fixture_strategy_def fixture_frame upt_rec th_return_at_def)

lemma fixture_cum_ret:
  "cum_ret [None, Some (- 1 / 3), None, Some (1 / 8)]
     = [None, Some (- 1 / 3), Some (- 1 / 3), Some (- 1 / 4)]"
  by (simp add: cum_ret_def ffill_def cumprod_def)

text \<open>
  C3, as stated, fails: forward filling fills an entry from the entries before it, so
  the leading entries of the cumulative returns are not filled. On the fixture strategy
  the theoretical returns are NaN, \<open>-1/3\<close>, NaN, \<open>1/8\<close>; the first cumulative
  return is still NaN, not the first available cumulative value \<open>-1/3\<close>.
\<close>

theorem cum_returns_leading_counterexample:
  "th_returns fixture_strategy = Inr [None, Some (- 1 / 3), None, Some (1 / 8)] \<and>
   cum_returns fixture_strategy = Inr [None, Some (- 1 / 3), Some (- 1 / 3), Some (- 1 / 4)] \<and>
   [None, Some (- 1 / 3), Some (- 1 / 3), Some (- 1 / 4)] ! 0 \<noteq> Some (- 1 / 3 :: real)"
  using fixture_th_returns fixture_cum_ret by (simp add: cum_returns_def)

text \<open>
  C3, amended. For every sequence \<open>ret\<close> of theoretical returns the cumulative returns
  have one entry per date and no error is raised. Entry \<open>i\<close> is not available while no
  return up to \<open>i\<close> is available: leading entries stay not available. From the first
  available return on, entry \<open>i\<close> is the product of \<open>1 + r\<close> over the available returns
  \<open>r\<close> up to \<open>i\<close>, minus one; so where the return of a later date is not available,
  its entry repeats the entry before it (the forward fill), and the tail of the sequence
  is available.
\<close>

theorem cum_returns_running_product:
  "(th_returns s = Inr ret \<longrightarrow> cum_returns s = Inr (cum_ret ret)) \<and>
   length (cum_ret ret) = length ret \<and>
   (\<forall>i. i < length ret \<longrightarrow>
      cum_ret ret ! i =
        (if available (take (Suc i) ret) = [] then None
         else Some (prod_list (map (\<lambda>r. 1 + r) (available (take (Suc i) ret))) - 1))) \<and>
   (\<forall>i. Suc i < length ret \<and> ret ! Suc i = None \<longrightarrow> cum_ret ret ! Suc i = cum_ret ret ! i) \<and>
   (\<forall>i j. j \<le> i \<and> i < length ret \<and> ret ! j \<noteq> None \<longrightarrow> cum_ret ret ! i \<noteq> None)"
proof (intro conjI allI impI)
  assume "th_returns s = Inr ret"
  then show "cum_returns s = Inr (cum_ret ret)"
    by (simp add: cum_returns_def)
next
  show "length (cum_ret ret) = length ret"
    by simp
next
  fix i
  assume "i < length ret"
  then show "cum_ret ret ! i =
        (if available (take (Suc i) ret) = [] then None
         else Some (prod_list (map (\<lambda>r. 1 + r) (available (take (Suc i) ret))) - 1))"
    by (rule nth_cum_ret)
next
  fix i
  assume a: "Suc i < length ret \<and> ret ! Suc i = None"
  then have "available (take (Suc (Suc i)) ret) = available (take (Suc i) ret)"
    using available_take_Suc [of "Suc i" ret] by simp
  with a show "cum_ret ret ! Suc i = cum_ret ret ! i"
    by (simp add: nth_cum_ret)
next
  fix i j
  assume a: "j \<le> i \<and> i < length ret \<and> ret ! j \<noteq> None"
  then obtain r where r: "ret ! j = Some r"
    by auto
  from a have "take (Suc j) (take (Suc i) ret) = take (Suc j) ret"
    by (simp add: min_def)
  then have "take (Suc i) ret = take (Suc j) ret @ drop (Suc j) (take (Suc i) ret)"
    using append_take_drop_id [of "Suc j" "take (Suc i) ret"] by simp
  then have "available (take (Suc i) ret) =
      available (take (Suc j) ret) @ available (drop (Suc j) (take (Suc i) ret))"
    by (metis available_append)
  moreover have "available (take (Suc j) ret) = available (take j ret) @ [r]"
    using a r available_take_Suc [of j ret] by simp
  ultimately have "available (take (Suc i) ret) \<noteq> []"
    by simp
  with a show "cum_ret ret ! i \<noteq> None"
    by (simp add: nth_cum_ret)
qed

theorem cum_returns_running_product_witness:
  "cum_returns fixture_strategy = Inr (cum_ret [None, Some (- 1 / 3), None, Some (1 / 8)]) \<and>
   cum_ret [None, Some (- 1 / 3), None, Some (1 / 8)] ! 0 = None \<and>
   cum_ret [None, Some (- 1 / 3), None, Some (1 / 8)] ! 2 = Some ((1 + - 1 / 3) - 1) \<and>
   cum_ret [None, Some (- 1 / 3), None, Some (1 / 8)] ! 3
     = Some ((1 + - 1 / 3) * (1 + 1 / 8) - 1)"
  using cum_returns_running_product
    [of fixture_strategy "[None, Some (- 1 / 3), None, Some (1 / 8)]"]
    fixture_th_returns fixture_cum_ret
  by simp

subsection \<open>Realised returns\<close>

lemma length_fold_round [simp]:
  "length (fold (round_step pos) is rp) = length rp"
  by (induction "is" arbitrary: rp) (simp_all add: round_step_def)

lemma nth_fold_round:
  "b \<le> length rp \<Longrightarrow> j < length rp \<Longrightarrow>
   fold (round_step pos) [a..<b] rp ! j =
     (if a \<le> j \<and> j < b
      then (truncate (fst (pos ! j)) 3 * 10 ^ 3, truncate (snd (pos ! j)) 3 * 10 ^ 3)
      else rp ! j)"
proof (induction b)
  case 0
  then show ?case by simp
next
  case (Suc b)
  let ?prev = "fold (round_step pos) [a..<b] rp"
  let ?row = "(truncate (fst (pos ! b)) 3 * 10 ^ 3, truncate (snd (pos ! b)) 3 * 10 ^ 3)"
  show ?case
  proof (cases "a \<le> b")
    case True
    then have unfold: "fold (round_step pos) [a..<Suc b] rp = ?prev[b := ?row]"
      by (simp add: round_step_def)
    have ih: "?prev ! j =
      (if a \<le> j \<and> j < b
       then (truncate (fst (pos ! j)) 3 * 10 ^ 3, truncate (snd (pos ! j)) 3 * 10 ^ 3)
       else rp ! j)"
      using Suc by simp
    show ?thesis
    proof (cases "j = b")
      case True
      with \<open>a \<le> b\<close> Suc.prems show ?thesis
        unfolding unfold by simp
    next
      case False
      then have "?prev[b := ?row] ! j = ?prev ! j"
        by simp
      with False ih show ?thesis
        unfolding unfold by (auto simp: less_Suc_eq)
    qed
  next
    case False
    then show ?thesis by auto
  qed
qed

lemma length_rounded_positions [simp]:
  "length (rounded_positions L pos) = length pos"
  by (simp add: rounded_positions_def)

lemma nth_rounded_positions:
  "j < length pos \<Longrightarrow>
   rounded_positions L pos ! j =
     (if L \<le> j \<and> j < length pos - 1
      then (truncate (fst (pos ! j)) 3 * 10 ^ 3, truncate (snd (pos ! j)) 3 * 10 ^ 3)
      else (0, 0))"
  by (simp add: rounded_positions_def nth_fold_round)

lemma rounded_positions_last:
  assumes "pos \<noteq> []"
  shows "last (rounded_positions L pos) = (0, 0)"
proof -
  from assms have "rounded_positions L pos \<noteq> []"
    by (metis length_rounded_positions length_0_conv)
  then have "last (rounded_positions L pos) = rounded_positions L pos ! (length pos - 1)"
    by (simp add: last_conv_nth)
  with assms show ?thesis
    by (simp add: nth_rounded_positions)
qed

lemma rounded_positions_update_last:
  "rounded_positions L (pos[length pos - 1 := v]) = rounded_positions L pos"
  by (rule nth_equalityI) (simp_all add: nth_rounded_positions)

lemma rounded_positions_zero:
  "rounded_positions L (replicate n (0, 0)) = replicate n (0, 0)"
  by (rule nth_equalityI) (simp_all add: nth_rounded_positions)

lemma diff_zero: "diff (replicate n 0) = replicate (n - 1) 0"
proof (induction n)
  case 0
  then show ?case by simp
next
  case (Suc n)
  then show ?case by (cases n) simp_all
qed

lemma orders_zero: "orders (replicate n 0) = replicate (Suc (n - 1)) 0"
  by (simp add: orders_def diff_zero)

lemma budget_loop_id:
  "(\<And>i. i \<in> set is \<Longrightarrow> step i b = Inr b) \<Longrightarrow> budget_loop step is b = Inr b"
  by (induction "is") simp_all

lemma budget_loop_cong:
  "(\<And>i b. i \<in> set is \<Longrightarrow> step i b = step' i b) \<Longrightarrow>
   budget_loop step is b = budget_loop step' is b"
  by (induction "is" arbitrary: b) (simp_all split: sum.splits)

lemma final_budget_zero:
  assumes "m - 1 \<le> length (closed_prices (equity1 p))"
    and "m - 1 \<le> length (closed_prices (equity2 p))"
  shows "final_budget p (replicate m 0) (replicate m 0) b = Inr b"
  unfolding final_budget_def Let_def
  using assms by (intro budget_loop_id) (simp add: budget_step_def iloc_def commission_def)

lemma final_budget_zero_orders:
  assumes "n - 1 \<le> length (closed_prices (equity1 p))"
    and "n - 1 \<le> length (closed_prices (equity2 p))"
  shows "final_budget p (orders (replicate n 0)) (orders (replicate n 0)) b = Inr b"
  unfolding orders_zero using assms by (intro final_budget_zero) simp_all

lemma final_budget_update_last:
  "final_budget p (o1[length o1 - 1 := x]) (o2[length o1 - 1 := y]) b = final_budget p o1 o2 b"
proof -
  have "budget_step p (o1[length o1 - 1 := x]) (map commission (o1[length o1 - 1 := x]))
          (o2[length o1 - 1 := y]) (map commission (o2[length o1 - 1 := y])) i c =
        budget_step p o1 (map commission o1) o2 (map commission o2) i c"
    if "i \<in> set [0..<length o1 - 1]" for i c
  proof -
    from that have "length o1 - 1 \<noteq> i"
      by simp
    then show ?thesis
      by (simp add: budget_step_def map_update split: sum.splits)
  qed
  then show ?thesis
    unfolding final_budget_def Let_def length_list_update
    by (rule budget_loop_cong)
qed


lemma init_budget_value:
  "init_budget p = Inr ib \<longleftrightarrow>
     closed_prices (equity1 p) \<noteq> [] \<and> closed_prices (equity2 p) \<noteq> [] \<and>
     ib = 1000 * (closed_prices (equity1 p) ! 0 + closed_prices (equity2 p) ! 0)"
  by (auto simp: init_budget_def iloc_def)

lemma returns_zero_positions:
  assumes "positions s = replicate n (0, 0)"
    and "n - 1 \<le> length (closed_prices (equity1 (pair s)))"
    and "n - 1 \<le> length (closed_prices (equity2 (pair s)))"
    and "init_budget (pair s) = Inr ib" and "ib \<noteq> 0"
  shows "returns s = Inr (truncate ib 2 / ib - 1)"
  using assms
  by (simp add: returns_def Let_def rounded_positions_zero final_budget_zero_orders)

lemma flat_returns: "returns flat_strategy = Inr (- 1 / 2000001)"
proof -
  have "init_budget (pair flat_strategy) = Inr 2000.001"
    by (simp add: init_budget_def iloc_def flat_strategy_def)
  moreover have "positions flat_strategy = replicate 3 (0, 0)"
    by (simp add: flat_strategy_def numeral_3_eq_3)
  moreover have "truncate 2000.001 2 = 2000"
    by (simp add: truncate_def)
  ultimately show ?thesis
    using returns_zero_positions [of flat_strategy 3 "2000.001"]
    by (simp add: flat_strategy_def)
qed

lemma trade_returns: "returns trade_strategy = Inr (- 553 / 6000)"
  by (simp add: returns_def trade_strategy_def rounded_positions_def upt_rec round_step_def
      truncate_def orders_def init_budget_def iloc_def fixture_pair_def fixture_equity1_def
      fixture_equity2_def final_budget_def budget_step_def commission_def)

text \<open>
  C4, as stated, fails: the budget starts at the truncated initial budget, and the
  result divides by the initial budget before truncation. On closes \<open>1.000001\<close> and \<open>1\<close>
  at the first date the initial budget is \<open>2000.001\<close>, the budget stays at \<open>2000\<close> for
  a strategy that never holds anything, and \<^verbatim>\<open>returns\<close> is \<open>2000 / 2000.001 - 1\<close>, not
  \<open>0\<close>.
\<close>

theorem returns_zero_positions_counterexample:
  "positions flat_strategy = [(0, 0), (0, 0), (0, 0)] \<and>
   init_budget (pair flat_strategy) = Inr 2000.001 \<and>
   truncate 2000.001 2 = 2000 \<and>
   returns flat_strategy = Inr (- 1 / 2000001) \<and>
   returns flat_strategy \<noteq> Inr 0"
proof -
  have "init_budget (pair flat_strategy) = Inr 2000.001"
    by (simp add: init_budget_def iloc_def flat_strategy_def)
  moreover have "positions flat_strategy = [(0, 0), (0, 0), (0, 0)]"
    by (simp add: flat_strategy_def)
  moreover have "truncate 2000.001 2 = 2000"
    by (simp add: truncate_def)
  ultimately show ?thesis
    by (simp add: flat_returns)
qed

text \<open>
  C4, amended. Where \<^verbatim>\<open>returns\<close> gives a result, it is
  \<open>final_budget / init_budget - 1\<close>: \<open>init_budget\<close> is the price of 1000 units of each
  equity at the first date, not truncated, and the final budget is what the loop over the
  orders makes of \<open>init_budget\<close> truncated to 2 decimal places. For a strategy whose
  positions are zero at every date (on series long enough for the loop, with a non-zero
  initial budget) \<^verbatim>\<open>returns\<close> is \<open>truncate init_budget 2 / init_budget - 1\<close>, which is \<open>0\<close>
  exactly when the initial budget has at most 2 decimal places.
\<close>

theorem returns_value:
  "(returns s = Inr r \<longrightarrow>
      (\<exists>ib fb. init_budget (pair s) = Inr ib \<and>
         ib = 1000 * (closed_prices (equity1 (pair s)) ! 0
                      + closed_prices (equity2 (pair s)) ! 0) \<and>
         final_budget (pair s)
           (orders (map fst (rounded_positions (lookback s) (positions s))))
           (orders (map snd (rounded_positions (lookback s) (positions s))))
           (truncate ib 2) = Inr fb \<and>
         r = fb / ib - 1)) \<and>
   (positions s = replicate n (0, 0) \<and>
    n - 1 \<le> length (closed_prices (equity1 (pair s))) \<and>
    n - 1 \<le> length (closed_prices (equity2 (pair s))) \<and>
    init_budget (pair s) = Inr ib' \<and> ib' \<noteq> 0 \<longrightarrow>
      returns s = Inr (truncate ib' 2 / ib' - 1) \<and>
      (returns s = Inr 0 \<longleftrightarrow> truncate ib' 2 = ib'))"
proof (intro conjI impI)
  assume r: "returns s = Inr r"
  then obtain ib where ib: "init_budget (pair s) = Inr ib"
    by (cases "init_budget (pair s)") (simp_all add: returns_def Let_def)
  with r obtain fb where fb: "final_budget (pair s)
           (orders (map fst (rounded_positions (lookback s) (positions s))))
           (orders (map snd (rounded_positions (lookback s) (positions s))))
           (truncate ib 2) = Inr fb"
    by (cases "final_budget (pair s)
           (orders (map fst (rounded_positions (lookback s) (positions s))))
           (orders (map snd (rounded_positions (lookback s) (positions s))))
           (truncate ib 2)") (simp_all add: returns_def Let_def)
  from r ib fb have "r = fb / ib - 1"
    by (simp add: returns_def Let_def split: if_splits)
  moreover from ib have "ib = 1000 * (closed_prices (equity1 (pair s)) ! 0
                      + closed_prices (equity2 (pair s)) ! 0)"
    by (simp add: init_budget_value)
  ultimately show "\<exists>ib fb. init_budget (pair s) = Inr ib \<and>
         ib = 1000 * (closed_prices (equity1 (pair s)) ! 0
                      + closed_prices (equity2 (pair s)) ! 0) \<and>
         final_budget (pair s)
           (orders (map fst (rounded_positions (lookback s) (positions s))))
           (orders (map snd (rounded_positions (lookback s) (positions s))))
           (truncate ib 2) = Inr fb \<and>
         r = fb / ib - 1"
    using ib fb by blast
next
  assume a: "positions s = replicate n (0, 0) \<and>
    n - 1 \<le> length (closed_prices (equity1 (pair s))) \<and>
    n - 1 \<le> length (closed_prices (equity2 (pair s))) \<and>
    init_budget (pair s) = Inr ib' \<and> ib' \<noteq> 0"
  then have v: "returns s = Inr (truncate ib' 2 / ib' - 1)"
    by (simp add: returns_zero_positions)
  then show "returns s = Inr (truncate ib' 2 / ib' - 1)" .
  from a v show "returns s = Inr 0 \<longleftrightarrow> truncate ib' 2 = ib'"
    by auto
qed

theorem returns_value_witness:
  "returns (trade_strategy\<lparr>positions := replicate 4 (0, 0)\<rparr>) = Inr 0 \<and>
   init_budget fixture_pair = Inr 3000 \<and> truncate 3000 2 = 3000"
proof -
  have ib: "init_budget fixture_pair = Inr 3000"
    by (simp add: init_budget_def iloc_def fixture_pair_def fixture_equity1_def
        fixture_equity2_def)
  have t: "truncate 3000 2 = 3000"
    using truncate_of_int [of 3000 2] by simp
  from ib t show ?thesis
    using returns_value [of "trade_strategy\<lparr>positions := replicate 4 (0, 0)\<rparr>" _ 4 3000]
    by (simp add: trade_strategy_def fixture_pair_def fixture_equity1_def fixture_equity2_def)
qed

text \<open>
  C10. The rounding loop stops one row before the end, so the rounded position at the
  final date is zero whatever \<^verbatim>\<open>positions()\<close> holds there; \<^verbatim>\<open>returns\<close> is the same for
  two position arrays that differ at the last date only; and the budget after the loop
  does not depend on the last order of either equity nor on its commission.
\<close>

theorem returns_ignores_last_date:
  "(positions s \<noteq> [] \<longrightarrow> last (rounded_positions (lookback s) (positions s)) = (0, 0)) \<and>
   returns (s\<lparr>positions := (positions s)[length (positions s) - 1 := v]\<rparr>) = returns s \<and>
   final_budget p (o1[length o1 - 1 := x]) (o2[length o1 - 1 := y]) b = final_budget p o1 o2 b"
  using rounded_positions_update_last [of "lookback s" "positions s" v]
    final_budget_update_last [of p o1 x o2 y b]
  by (simp add: rounded_positions_last returns_def cong: sum.case_cong)

theorem returns_ignores_last_date_witness:
  "returns trade_strategy = Inr (- 553 / 6000) \<and>
   returns (trade_strategy\<lparr>positions := [(1.2345, - 0.5), (1.2345, - 0.5), (2, - 1), (- 3, 12)]\<rparr>)
     = Inr (- 553 / 6000) \<and>
   rounded_positions 1 (positions trade_strategy) = [(0, 0), (1234, - 500), (2000, - 1000), (0, 0)]"
proof -
  have "rounded_positions 1 (positions trade_strategy)
      = [(0, 0), (1234, - 500), (2000, - 1000), (0, 0)]"
    by (simp add: trade_strategy_def rounded_positions_def upt_rec round_step_def truncate_def)
  moreover have "(positions trade_strategy)[length (positions trade_strategy) - 1 := (- 3, 12)]
      = [(1.2345, - 0.5), (1.2345, - 0.5), (2, - 1), (- 3, 12)]"
    by (simp add: trade_strategy_def)
  ultimately show ?thesis
    using returns_ignores_last_date [of trade_strategy "(- 3, 12)"] trade_returns
    by simp
qed

subsection \<open>Commission charged by the budget loop\<close>

lemma length_diff [simp]: "length (diff xs) = length xs - 1"
  by (induction xs rule: diff.induct) simp_all

lemma length_orders [simp]: "length (orders column) = Suc (length column - 1)"
  by (simp add: orders_def)

lemma budget_loop_snoc:
  "budget_loop step (js @ [j]) b =
     (case budget_loop step js b of Inl e \<Rightarrow> Inl e | Inr b' \<Rightarrow> step j b')"
  by (induction js arbitrary: b) (simp_all split: sum.splits)

text \<open>
  The loop over the first \<open>k\<close> dates subtracts, for each equity and each of these dates,
  the order times the close and the commission of the date.
\<close>

lemma budget_loop_sum:
  assumes "k \<le> length (closed_prices (equity1 p))" "k \<le> length (closed_prices (equity2 p))"
  shows "budget_loop (budget_step p o1 c1 o2 c2) [0..<k] b =
    Inr (b - (\<Sum>i<k. o1 ! i * closed_prices (equity1 p) ! i + c1 ! i)
           - (\<Sum>i<k. o2 ! i * closed_prices (equity2 p) ! i + c2 ! i))"
  using assms
proof (induction k)
  case 0
  then show ?case by simp
next
  case (Suc k)
  then show ?case
    by (simp add: budget_loop_snoc budget_step_value)
qed

lemma final_budget_sum:
  assumes "length o2 = length o1"
    and "length o1 - 1 \<le> length (closed_prices (equity1 p))"
    and "length o1 - 1 \<le> length (closed_prices (equity2 p))"
  shows "final_budget p o1 o2 b =
    Inr (b - (\<Sum>i<length o1 - 1. o1 ! i * closed_prices (equity1 p) ! i + commission (o1 ! i))
           - (\<Sum>i<length o1 - 1. o2 ! i * closed_prices (equity2 p) ! i + commission (o2 ! i)))"
proof -
  have "(\<Sum>i<length o1 - 1. o1 ! i * closed_prices (equity1 p) ! i + map commission o1 ! i) =
        (\<Sum>i<length o1 - 1. o1 ! i * closed_prices (equity1 p) ! i + commission (o1 ! i))"
    by (rule sum.cong) simp_all
  moreover have
    "(\<Sum>i<length o1 - 1. o2 ! i * closed_prices (equity2 p) ! i + map commission o2 ! i) =
     (\<Sum>i<length o1 - 1. o2 ! i * closed_prices (equity2 p) ! i + commission (o2 ! i))"
    using assms(1) by (intro sum.cong) simp_all
  ultimately show ?thesis
    using assms by (simp add: final_budget_def Let_def budget_loop_sum)
qed

lemma trade_orders:
  "orders (map fst (rounded_positions (lookback trade_strategy) (positions trade_strategy)))
     = [0, 1234, 766, - 2000]"
  "orders (map snd (rounded_positions (lookback trade_strategy) (positions trade_strategy)))
     = [0, - 500, - 500, 1000]"
  by (simp_all add: trade_strategy_def rounded_positions_def upt_rec round_step_def truncate_def
      orders_def)

lemma trade_final_budget:
  "final_budget fixture_pair [0, 1234, 766, - 2000] [0, - 500, - 500, 1000] 3000 = Inr 2723.5"
  by (simp add: final_budget_def upt_rec budget_step_def iloc_def fixture_pair_def
      fixture_equity1_def fixture_equity2_def commission_def)

lemma trade_final_budget_flat_end:
  "final_budget fixture_pair [0, 1234, 766, 0] [0, - 500, - 500, 0] 3000 = Inr 2723.5"
  by (simp add: final_budget_def upt_rec budget_step_def iloc_def fixture_pair_def
      fixture_equity1_def fixture_equity2_def commission_def)

text \<open>
  C7, as stated, fails for the order of the last date: the budget loop of \<^verbatim>\<open>returns\<close> runs
  over all dates but the last, so that order is charged nothing although it is not zero.
  On the trading fixture the orders are \<open>0, 1234, 766, -2000\<close> and
  \<open>0, -500, -500, 1000\<close>; the commissions of the last two orders would be \<open>7\<close> and
  \<open>3.5\<close>; the final budget \<open>2723.5\<close> is the initial \<open>3000\<close> less the orders and
  commissions of the second and third date only, the same as with zero orders at the
  last date.
\<close>

theorem commission_last_order_counterexample:
  "orders (map fst (rounded_positions (lookback trade_strategy) (positions trade_strategy)))
     = [0, 1234, 766, - 2000] \<and>
   orders (map snd (rounded_positions (lookback trade_strategy) (positions trade_strategy)))
     = [0, - 500, - 500, 1000] \<and>
   max (\<bar>- 2000\<bar> * 0.0035) 0.35 = (7 :: real) \<and> max (\<bar>1000\<bar> * 0.0035) 0.35 = (3.5 :: real) \<and>
   final_budget (pair trade_strategy) [0, 1234, 766, - 2000] [0, - 500, - 500, 1000] 3000
     = Inr 2723.5 \<and>
   final_budget (pair trade_strategy) [0, 1234, 766, 0] [0, - 500, - 500, 0] 3000
     = Inr 2723.5 \<and>
   3000 - (1234 * 2 + max (\<bar>1234\<bar> * 0.0035) 0.35) - (766 * 3 + max (\<bar>766\<bar> * 0.0035) 0.35)
        - (- 500 * 4 + max (\<bar>- 500\<bar> * 0.0035) 0.35) - (- 500 * 5 + max (\<bar>- 500\<bar> * 0.0035) 0.35)
     = (2723.5 :: real) \<and>
   returns trade_strategy = Inr (2723.5 / 3000 - 1)"
proof -
  have "pair trade_strategy = fixture_pair"
    by (simp add: trade_strategy_def)
  then show ?thesis
    using trade_orders trade_final_budget trade_final_budget_flat_end trade_returns
    by simp
qed

text \<open>
  C7, amended. The commission of a non-zero order \<open>q\<close> is \<open>max (\<bar>q\<bar> * 0.0035) 0.35\<close> and
  the commission of a zero order is \<open>0\<close>: an order of 50 costs \<open>0.35\<close>, an order of 200
  costs \<open>0.70\<close>. \<^verbatim>\<open>returns\<close> charges this commission for the order of each equity at
  every date but the last, and nothing for the orders of the last date: on series long
  enough for the loop, the final budget is the starting budget less, for every date but
  the last and for each equity, the order times the close and the commission of the order,
  and \<^verbatim>\<open>returns\<close> is that final budget, from the truncated initial budget, over the
  initial budget, minus one.
\<close>

theorem commission_charged:
  "(q \<noteq> 0 \<longrightarrow> commission q = max (\<bar>q\<bar> * 0.0035) 0.35) \<and>
   commission 0 = 0 \<and> commission 50 = 0.35 \<and> commission 200 = 0.70 \<and>
   (length o2 = length o1 \<and>
    length o1 - 1 \<le> length (closed_prices (equity1 p)) \<and>
    length o1 - 1 \<le> length (closed_prices (equity2 p)) \<longrightarrow>
      final_budget p o1 o2 b =
        Inr (b - (\<Sum>i<length o1 - 1. o1 ! i * closed_prices (equity1 p) ! i + commission (o1 ! i))
               - (\<Sum>i<length o1 - 1. o2 ! i * closed_prices (equity2 p) ! i + commission (o2 ! i)))) \<and>
   (length (positions s) - 1 \<le> length (closed_prices (equity1 (pair s))) \<and>
    length (positions s) - 1 \<le> length (closed_prices (equity2 (pair s))) \<and>
    init_budget (pair s) = Inr ib \<and> ib \<noteq> 0 \<longrightarrow>
      returns s =
        Inr ((truncate ib 2
               - (\<Sum>i<length (positions s) - 1.
                    orders (map fst (rounded_positions (lookback s) (positions s))) ! i
                      * closed_prices (equity1 (pair s)) ! i
                    + commission
                        (orders (map fst (rounded_positions (lookback s) (positions s))) ! i))
               - (\<Sum>i<length (positions s) - 1.
                    orders (map snd (rounded_positions (lookback s) (positions s))) ! i
                      * closed_prices (equity2 (pair s)) ! i
                    + commission
                        (orders (map snd (rounded_positions (lookback s) (positions s))) ! i)))
             / ib - 1))"
proof (intro conjI impI)
  assume "q \<noteq> 0"
  then show "commission q = max (\<bar>q\<bar> * 0.0035) 0.35"
    by (simp add: commission_def)
next
  show "commission 0 = 0" "commission 50 = 0.35" "commission 200 = 0.70"
    by (simp_all add: commission_def)
next
  assume "length o2 = length o1 \<and>
    length o1 - 1 \<le> length (closed_prices (equity1 p)) \<and>
    length o1 - 1 \<le> length (closed_prices (equity2 p))"
  then show "final_budget p o1 o2 b =
        Inr (b - (\<Sum>i<length o1 - 1. o1 ! i * closed_prices (equity1 p) ! i + commission (o1 ! i))
               - (\<Sum>i<length o1 - 1. o2 ! i * closed_prices (equity2 p) ! i + commission (o2 ! i)))"
    by (simp add: final_budget_sum)
next
  let ?o1 = "orders (map fst (rounded_positions (lookback s) (positions s)))"
  let ?o2 = "orders (map snd (rounded_positions (lookback s) (positions s)))"
  assume a: "length (positions s) - 1 \<le> length (closed_prices (equity1 (pair s))) \<and>
    length (positions s) - 1 \<le> length (closed_prices (equity2 (pair s))) \<and>
    init_budget (pair s) = Inr ib \<and> ib \<noteq> 0"
  have len: "length ?o2 = length ?o1" "length ?o1 - 1 = length (positions s) - 1"
    by simp_all
  with a have "final_budget (pair s) ?o1 ?o2 (truncate ib 2) =
      Inr (truncate ib 2
        - (\<Sum>i<length (positions s) - 1.
             ?o1 ! i * closed_prices (equity1 (pair s)) ! i + commission (?o1 ! i))
        - (\<Sum>i<length (positions s) - 1.
             ?o2 ! i * closed_prices (equity2 (pair s)) ! i + commission (?o2 ! i)))"
    using final_budget_sum [of ?o2 ?o1 "pair s" "truncate ib 2"] by simp
  with a show "returns s =
        Inr ((truncate ib 2
               - (\<Sum>i<length (positions s) - 1.
                    ?o1 ! i * closed_prices (equity1 (pair s)) ! i + commission (?o1 ! i))
               - (\<Sum>i<length (positions s) - 1.
                    ?o2 ! i * closed_prices (equity2 (pair s)) ! i + commission (?o2 ! i)))
             / ib - 1)"
    by (simp add: returns_def Let_def)
qed

theorem commission_charged_witness:
  "commission (- 300) = 1.05 \<and>
   final_budget fixture_pair [0, 50, 0] [0, - 200, 0] 1000
     = Inr (1000 - (50 * 2 + 0.35) - (- 200 * 4 + 0.70)) \<and>
   returns trade_strategy =
     Inr ((3000 - (1234 * 2 + 4.319) - (766 * 3 + 2.681)
                - (- 500 * 4 + 1.75) - (- 500 * 5 + 1.75)) / 3000 - 1)"
proof -
  have ib: "init_budget (pair trade_strategy) = Inr 3000"
    by (simp add: init_budget_def iloc_def trade_strategy_def fixture_pair_def
        fixture_equity1_def fixture_equity2_def)
  have closes: "closed_prices (equity1 fixture_pair) = [1, 2, 3, 5]"
    "closed_prices (equity2 fixture_pair) = [2, 4, 5, 6]"
    by (simp_all add: fixture_pair_def fixture_equity1_def fixture_equity2_def)
  have p: "pair trade_strategy = fixture_pair" "length (positions trade_strategy) = 4"
    by (simp_all add: trade_strategy_def)
  show ?thesis
    using commission_charged [where q = "- 300" and ?o1.0 = "[0, 50, 0]"
        and ?o2.0 = "[0, - 200, 0]" and p = fixture_pair and b = 1000
        and s = trade_strategy and ib = 3000]
      ib closes p trade_returns
    by (simp add: commission_def)
qed

end
